theory Spec2Isabelle
  imports Main "HOL-Library.Sublist"
begin

section \<open>The release pipeline of scripts/build_and_publish.py\<close>

text \<open>
  The script is a linear sequence of stages around external commands. The model keeps
  what the script can observe and do: the working directory (regular files and
  directories), the lines the operator will type, and a chronological trace of what the
  script printed, ran and asked. Every stage is a function from the world to an outcome
  and the world after it.

  Strings are lists of 8-bit characters, read as code points below 256. The text of a
  printed line is given without the pictograph the source puts in front of it and without
  the blank line some messages start with.
\<close>

subsection \<open>Python strings\<close>

definition isspace :: "char \<Rightarrow> bool" where
  \<comment> \<open>\<open>str.isspace\<close> on one code point below 256\<close>
  "isspace c =
     (let n = (of_char c :: nat)
      in (9 \<le> n \<and> n \<le> 13) \<or> (28 \<le> n \<and> n \<le> 32) \<or> n = 133 \<or> n = 160)"

definition strip :: "string \<Rightarrow> string" where
  \<comment> \<open>\<open>str.strip()\<close>\<close>
  "strip s = rev (dropWhile isspace (rev (dropWhile isspace s)))"

definition lower_char :: "char \<Rightarrow> char" where
  "lower_char c =
     (let n = (of_char c :: nat)
      in if (65 \<le> n \<and> n \<le> 90) \<or> (192 \<le> n \<and> n \<le> 222 \<and> n \<noteq> 215)
         then char_of (n + 32) else c)"

definition lower :: "string \<Rightarrow> string" where
  \<comment> \<open>\<open>str.lower()\<close>\<close>
  "lower s = map lower_char s"

definition quote :: char where
  "quote = CHR 0x22"

definition match_quoted :: "string \<Rightarrow> string \<Rightarrow> string option" where
  \<comment> \<open>\<open>re.match(lit + '"([^"]+)"', text)\<close>, group 1, for a literal \<open>lit\<close> without
      metacharacters. The class \<open>[^"]\<close> takes every character but the quote (newlines
      too), so the greedy run stops at the first quote and giving characters back can
      never help: the group is the whole run up to that quote, and must not be empty.\<close>
  "match_quoted lit text =
     (if prefix (lit @ [quote]) text
      then let rest = drop (length lit + 1) text;
               group1 = takeWhile (\<lambda>c. c \<noteq> quote) rest
           in if group1 \<noteq> [] \<and> length group1 < length rest then Some group1 else None
      else None)"

fun search_quoted :: "string \<Rightarrow> string \<Rightarrow> string option" where
  \<comment> \<open>\<open>re.search(lit + '"([^"]+)"', text)\<close>, group 1: the leftmost position that matches\<close>
  "search_quoted lit [] = match_quoted lit []"
| "search_quoted lit (c # cs) =
     (case match_quoted lit (c # cs) of
        Some g \<Rightarrow> Some g
      | None \<Rightarrow> search_quoted lit cs)"

datatype pyval = PyBool bool | PyStr string

fun truthy :: "pyval \<Rightarrow> bool" where
  "truthy (PyBool b) = b"
| "truthy (PyStr s) = (s \<noteq> [])"

fun str_bool :: "bool \<Rightarrow> string" where
  "str_bool True = ''True''"
| "str_bool False = ''False''"

subsection \<open>The working directory\<close>

datatype node = File string | Dir "(string \<times> node) list"

type_synonym entries = "(string \<times> node) list"

fun resolve :: "entries \<Rightarrow> string list \<Rightarrow> node option" where
  "resolve fs [] = Some (Dir fs)"
| "resolve fs (name # rest) =
     (case map_of fs name of
        None \<Rightarrow> None
      | Some n \<Rightarrow>
          if rest = [] then Some n
          else (case n of Dir sub \<Rightarrow> resolve sub rest | File _ \<Rightarrow> None))"

definition exists :: "string list \<Rightarrow> entries \<Rightarrow> bool" where
  \<comment> \<open>\<open>Path.exists()\<close>\<close>
  "exists path fs = (resolve fs path \<noteq> None)"

definition is_dir :: "string list \<Rightarrow> entries \<Rightarrow> bool" where
  \<comment> \<open>\<open>Path.is_dir()\<close>\<close>
  "is_dir path fs = (case resolve fs path of Some (Dir _) \<Rightarrow> True | _ \<Rightarrow> False)"

definition glob_star :: "string \<Rightarrow> entries \<Rightarrow> string list" where
  \<comment> \<open>\<open>Path(".").glob("*" + ending)\<close>: the names in the working directory that end with
      \<open>ending\<close>, in the order the directory lists them\<close>
  "glob_star ending fs = filter (suffix ending) (map fst fs)"

definition remove_entry :: "string \<Rightarrow> entries \<Rightarrow> entries" where
  \<comment> \<open>the directory without the entry of that name (and all below it)\<close>
  "remove_entry name fs = filter (\<lambda>(n, _). n \<noteq> name) fs"

subsection \<open>Outcomes, the world and its trace\<close>

datatype error = IsADirectoryError | NotADirectoryError | FileNotFoundError | EOFError

datatype 'a outcome = Return 'a | SysExit int | Raise error

fun exit_code :: "'a outcome \<Rightarrow> int" where
  \<comment> \<open>the exit status of the interpreter: 0 at the end of the script, the argument of
      \<open>sys.exit\<close>, 1 after an exception nothing catches\<close>
  "exit_code (Return _) = 0"
| "exit_code (SysExit n) = n"
| "exit_code (Raise _) = 1"

record completed_process =
  returncode :: int
  stdout :: string
  stderr :: string

datatype event =
    Print string
  | PrintFailed string string int
  | PrintArtifact string node
  | Ran string int
  | Asked string "string option"

text \<open>
  \<open>Print\<close> is a line on standard output. \<open>PrintFailed d c rc\<close> is the line
  \<open>"<d> failed: <e>"\<close> for the \<open>CalledProcessError\<close> of command \<open>c\<close> with return code
  \<open>rc\<close>. \<open>PrintArtifact name n\<close> is the line for one entry of \<open>dist\<close>: its name and size.
  \<open>Ran c rc\<close> is \<open>subprocess.run\<close> of the shell command \<open>c\<close>, which ended with return code
  \<open>rc\<close>. \<open>Asked p r\<close> is \<open>input(p)\<close>: \<open>r\<close> is the line read, or \<open>None\<close> at end of input.
\<close>

fun is_action :: "event \<Rightarrow> bool" where
  "is_action (Ran _ _) = True"
| "is_action (Asked _ _) = True"
| "is_action _ = False"

record world =
  files :: entries
  stdin :: "string list"
  trace :: "event list"

definition actions :: "world \<Rightarrow> event list" where
  \<comment> \<open>the commands run and the questions asked so far, in order\<close>
  "actions w = filter is_action (trace w)"

type_synonym shell = "string \<Rightarrow> entries \<Rightarrow> completed_process \<times> entries"

type_synonym 'a stage = "world \<Rightarrow> 'a outcome \<times> world"

definition return :: "'a \<Rightarrow> 'a stage" where
  "return x w = (Return x, w)"

definition and_then :: "'a stage \<Rightarrow> ('a \<Rightarrow> 'b stage) \<Rightarrow> 'b stage" where
  "and_then m k w =
     (case m w of
        (Return x, w') \<Rightarrow> k x w'
      | (SysExit n, w') \<Rightarrow> (SysExit n, w')
      | (Raise e, w') \<Rightarrow> (Raise e, w'))"

definition seq :: "unit stage \<Rightarrow> 'b stage \<Rightarrow> 'b stage" where
  "seq m k = and_then m (\<lambda>_. k)"

definition print :: "string \<Rightarrow> unit stage" where
  "print s w = (Return (), w\<lparr>trace := trace w @ [Print s]\<rparr>)"

definition sys_exit :: "int \<Rightarrow> 'a stage" where
  "sys_exit n w = (SysExit n, w)"

definition input :: "string \<Rightarrow> string stage" where
  \<comment> \<open>\<open>input(prompt)\<close>: writes the prompt and reads one line; \<open>EOFError\<close> when none is left\<close>
  "input prompt w =
     (case stdin w of
        [] \<Rightarrow> (Raise EOFError, w\<lparr>trace := trace w @ [Asked prompt None]\<rparr>)
      | r # rs \<Rightarrow> (Return r, w\<lparr>stdin := rs, trace := trace w @ [Asked prompt (Some r)]\<rparr>))"

definition read_text :: "string list \<Rightarrow> string stage" where
  \<comment> \<open>\<open>Path.read_text()\<close>\<close>
  "read_text path w =
     (case resolve (files w) path of
        Some (File content) \<Rightarrow> (Return content, w)
      | Some (Dir _) \<Rightarrow> (Raise IsADirectoryError, w)
      | None \<Rightarrow> (Raise FileNotFoundError, w))"

definition rmtree :: "string \<Rightarrow> unit stage" where
  \<comment> \<open>\<open>shutil.rmtree\<close> of an entry of the working directory\<close>
  "rmtree name w =
     (case map_of (files w) name of
        Some (Dir _) \<Rightarrow> (Return (), w\<lparr>files := remove_entry name (files w)\<rparr>)
      | Some (File _) \<Rightarrow> (Raise NotADirectoryError, w)
      | None \<Rightarrow> (Raise FileNotFoundError, w))"

definition unlink :: "string \<Rightarrow> unit stage" where
  \<comment> \<open>\<open>Path.unlink()\<close> of an entry of the working directory\<close>
  "unlink name w =
     (case map_of (files w) name of
        Some (File _) \<Rightarrow> (Return (), w\<lparr>files := remove_entry name (files w)\<rparr>)
      | Some (Dir _) \<Rightarrow> (Raise IsADirectoryError, w)
      | None \<Rightarrow> (Raise FileNotFoundError, w))"

subsection \<open>run_command\<close>

definition run_command :: "shell \<Rightarrow> string \<Rightarrow> string \<Rightarrow> bool \<Rightarrow> bool stage" where
  "run_command sh command description check =
     seq (print (description @ ''...''))
       (\<lambda>w. let (result, fs) = sh command (files w);
                w1 = w\<lparr>files := fs, trace := trace w @ [Ran command (returncode result)]\<rparr>
            in if check \<and> returncode result \<noteq> 0 then
                 \<comment> \<open>\<open>subprocess.run\<close> raised \<open>CalledProcessError\<close>, caught below it\<close>
                 seq (\<lambda>w. (Return (), w\<lparr>trace := trace w @
                            [PrintFailed description command (returncode result)]\<rparr>))
                  (seq (if stdout result \<noteq> []
                        then print (''   stdout: '' @ stdout result) else return ())
                  (seq (if stderr result \<noteq> []
                        then print (''   stderr: '' @ stderr result) else return ())
                  (return False))) w1
               else
                 seq (if returncode result = 0 then
                        seq (print (description @ '' completed successfully''))
                          (if strip (stdout result) \<noteq> []
                           then print (''   Output: '' @ strip (stdout result))
                           else return ())
                      else
                        seq (print (description @ '' completed with warnings''))
                         (seq (if strip (stdout result) \<noteq> []
                               then print (''   stdout: '' @ strip (stdout result))
                               else return ())
                              (if strip (stderr result) \<noteq> []
                               then print (''   stderr: '' @ strip (stderr result))
                               else return ())))
                  (return (returncode result = 0)) w1)"

subsection \<open>clean_build_artifacts\<close>

fun remove_egg_info_dirs :: "string list \<Rightarrow> unit stage" where
  \<comment> \<open>the loop over \<open>Path(".").glob("*.egg-info")\<close>\<close>
  "remove_egg_info_dirs [] w = return () w"
| "remove_egg_info_dirs (path # paths) w =
     seq (\<lambda>w. if is_dir [path] (files w)
              then seq (print (''Removing '' @ path)) (rmtree path) w
              else return () w)
         (remove_egg_info_dirs paths) w"

definition clean_pattern :: "string \<Rightarrow> unit stage" where
  \<comment> \<open>the body of the loop over \<open>artifacts\<close>\<close>
  "clean_pattern pattern w =
     (if pattern = ''*.egg-info''
      then remove_egg_info_dirs (glob_star ''.egg-info'' (files w)) w
      else if exists [pattern] (files w)
           then seq (print (''Removing '' @ pattern))
                  (if is_dir [pattern] (files w) then rmtree pattern else unlink pattern) w
           else return () w)"

fun clean_each :: "string list \<Rightarrow> unit stage" where
  \<comment> \<open>the loop over \<open>artifacts\<close>\<close>
  "clean_each [] w = return () w"
| "clean_each (pattern # rest) w = seq (clean_pattern pattern) (clean_each rest) w"

definition clean_build_artifacts :: "unit stage" where
  "clean_build_artifacts = clean_each [''build'', ''dist'', ''*.egg-info'']"

subsection \<open>check_version_consistency\<close>

definition check_version_consistency :: "pyval stage" where
  "check_version_consistency w =
     (if \<not> exists [''pyproject.toml''] (files w) then
        seq (print ''pyproject.toml not found'') (return (PyBool False)) w
      else
        and_then (read_text [''pyproject.toml'']) (\<lambda>pyproject_content.
          case search_quoted ''version = '' pyproject_content of
            None \<Rightarrow> seq (print ''Version not found in pyproject.toml'') (return (PyBool False))
          | Some pyproject_version \<Rightarrow>
              (\<lambda>w. if \<not> exists [''ragpack'', ''__init__.py''] (files w) then
                     seq (print ''ragpack/__init__.py not found'') (return (PyBool False)) w
                   else
                     and_then (read_text [''ragpack'', ''__init__.py'']) (\<lambda>init_content.
                       case search_quoted ''__version__ = '' init_content of
                         None \<Rightarrow>
                           seq (print ''Version not found in ragpack/__init__.py'')
                             (return (PyBool False))
                       | Some init_version \<Rightarrow>
                           if pyproject_version \<noteq> init_version then
                             seq (print (''Version mismatch: pyproject.toml='' @ pyproject_version
                                         @ '', __init__.py='' @ init_version))
                               (return (PyBool False))
                           else
                             seq (print (''Version consistency check passed: ''
                                         @ pyproject_version))
                               (return (PyBool True))) w)) w)"

subsection \<open>The stages that run one command each\<close>

fun run_checks :: "shell \<Rightarrow> (string \<times> string) list \<Rightarrow> bool \<Rightarrow> bool stage" where
  \<comment> \<open>the loop of \<open>run_quality_checks\<close>; the flag is \<open>all_passed\<close>\<close>
  "run_checks sh [] all_passed w = return all_passed w"
| "run_checks sh ((command, description) # checks) all_passed w =
     and_then (run_command sh command description False)
       (\<lambda>ok. run_checks sh checks (if \<not> ok then False else all_passed)) w"

definition checks :: "(string \<times> string) list" where
  "checks =
     [(''black --check ragpack tests examples scripts'', ''Code formatting check''),
      (''flake8 ragpack tests examples scripts'', ''Linting check''),
      (''mypy ragpack --ignore-missing-imports'', ''Type checking'')]"

definition run_quality_checks :: "shell \<Rightarrow> bool stage" where
  "run_quality_checks sh = run_checks sh checks True"

definition run_tests :: "shell \<Rightarrow> bool stage" where
  "run_tests sh = run_command sh ''pytest tests/ -v --tb=short'' ''Running test suite'' True"

definition build_package :: "shell \<Rightarrow> bool stage" where
  "build_package sh = run_command sh ''python -m build'' ''Building package'' True"

definition check_package :: "shell \<Rightarrow> bool stage" where
  "check_package sh = run_command sh ''twine check dist/*'' ''Checking package'' True"

definition upload_to_test_pypi :: "shell \<Rightarrow> bool stage" where
  "upload_to_test_pypi sh =
     run_command sh ''twine upload --repository testpypi dist/*'' ''Uploading to Test PyPI'' True"

definition upload_to_pypi :: "shell \<Rightarrow> bool stage" where
  "upload_to_pypi sh = run_command sh ''twine upload dist/*'' ''Uploading to PyPI'' True"

subsection \<open>main\<close>

datatype target = Build | TestPyPI | PyPI

fun target_name :: "target \<Rightarrow> string" where
  "target_name Build = ''build''"
| "target_name TestPyPI = ''test-pypi''"
| "target_name PyPI = ''pypi''"

record args =
  target :: target
  skip_checks :: bool
  skip_clean :: bool

definition banner :: "args \<Rightarrow> unit stage" where
  "banner a =
     seq (print ''RAGPack Build and Publish Script'')
    (seq (print (replicate 50 CHR ''=''))
    (seq (print (''Target: '' @ target_name (target a)))
    (seq (print (''Skip checks: '' @ str_bool (skip_checks a)))
    (seq (print (''Skip clean: '' @ str_bool (skip_clean a)))
         (print '''')))))"

definition step1_clean :: "args \<Rightarrow> unit stage" where
  "step1_clean a = (if \<not> skip_clean a then clean_build_artifacts else return ())"

definition step2_version :: "unit stage" where
  "step2_version =
     and_then check_version_consistency (\<lambda>ok.
       if \<not> truthy ok
       then seq (print ''Version consistency check failed'') (sys_exit 1)
       else return ())"

definition step3_quality :: "shell \<Rightarrow> unit stage" where
  "step3_quality sh =
     seq (print ''Running quality checks...'')
       (and_then (run_quality_checks sh) (\<lambda>ok.
          if \<not> ok
          then seq (print ''Quality checks failed'')
                 (and_then (input ''Continue anyway? (y/N): '') (\<lambda>response.
                    if lower response \<noteq> ''y'' then sys_exit 1 else return ()))
          else return ()))"

definition step4_tests :: "shell \<Rightarrow> unit stage" where
  "step4_tests sh =
     seq (print ''Running tests...'')
       (and_then (run_tests sh) (\<lambda>ok.
          if \<not> ok
          then seq (print ''Tests failed'')
                 (and_then (input ''Continue anyway? (y/N): '') (\<lambda>response.
                    if lower response \<noteq> ''y'' then sys_exit 1 else return ()))
          else return ()))"

definition step5_build :: "shell \<Rightarrow> unit stage" where
  "step5_build sh =
     seq (print ''Building package...'')
       (and_then (build_package sh) (\<lambda>ok.
          if \<not> ok then seq (print ''Package build failed'') (sys_exit 1) else return ()))"

definition step6_check :: "shell \<Rightarrow> unit stage" where
  "step6_check sh =
     seq (print ''Checking package...'')
       (and_then (check_package sh) (\<lambda>ok.
          if \<not> ok then seq (print ''Package check failed'') (sys_exit 1) else return ()))"

definition step7_upload :: "args \<Rightarrow> shell \<Rightarrow> unit stage" where
  "step7_upload a sh =
     (if target a = TestPyPI then
        seq (print ''Uploading to Test PyPI...'')
          (and_then (upload_to_test_pypi sh) (\<lambda>ok.
             if \<not> ok then seq (print ''Upload to Test PyPI failed'') (sys_exit 1)
             else seq (print ''Successfully uploaded to Test PyPI!'')
                 (seq (print ''Test installation with:'')
                      (print ''   pip install --index-url https://test.pypi.org/simple/ ragpack''))))
      else if target a = PyPI then
        seq (print ''WARNING: You are about to upload to the PRODUCTION PyPI!'')
          (and_then (input ''Are you sure you want to continue? (y/N): '') (\<lambda>response.
             if lower response \<noteq> ''y''
             then seq (print ''Upload cancelled'') (sys_exit 1)
             else
               seq (print ''Uploading to PyPI...'')
                 (and_then (upload_to_pypi sh) (\<lambda>ok.
                    if \<not> ok then seq (print ''Upload to PyPI failed'') (sys_exit 1)
                    else seq (print ''Successfully uploaded to PyPI!'')
                        (seq (print ''Install with:'')
                             (print ''   pip install ragpack''))))))
      else
        seq (print ''Package built successfully!'')
       (seq (print ''Next steps:'')
       (seq (print ''   - Test upload: python scripts/build_and_publish.py --target test-pypi'')
            (print ''   - Production upload: python scripts/build_and_publish.py --target pypi''))))"

definition show_artifacts :: "unit stage" where
  \<comment> \<open>the listing of \<open>dist\<close> that ends \<open>main\<close>; \<open>iterdir\<close> raises when \<open>dist\<close> is a file\<close>
  "show_artifacts w =
     (if exists [''dist''] (files w) then
        seq (print ''Build artifacts in dist:'')
          (\<lambda>w. case resolve (files w) [''dist''] of
                  Some (Dir sub) \<Rightarrow>
                    (Return (), w\<lparr>trace := trace w @ map (\<lambda>(name, n). PrintArtifact name n) sub\<rparr>)
                | _ \<Rightarrow> (Raise NotADirectoryError, w)) w
      else return () w)"

definition main_from :: "args \<Rightarrow> shell \<Rightarrow> unit stage" where
  "main_from a sh =
     seq (banner a)
    (seq (step1_clean a)
    (seq step2_version
    (seq (if \<not> skip_checks a then seq (step3_quality sh) (step4_tests sh) else return ())
    (seq (step5_build sh)
    (seq (step6_check sh)
    (seq (step7_upload a sh)
         show_artifacts))))))"

definition main :: "args \<Rightarrow> shell \<Rightarrow> entries \<Rightarrow> string list \<Rightarrow> unit outcome \<times> world" where
  \<comment> \<open>one run of the script: parsed arguments, the behaviour of the external commands, the
      working directory and the lines the operator types\<close>
  "main a sh fs lines = main_from a sh \<lparr>files = fs, stdin = lines, trace = []\<rparr>"

subsection \<open>What a run shows, given the return codes\<close>

text \<open>
  The commands run and the questions asked depend on the world only through the return
  codes of the commands, the outcome of the version check, the outcome of the final
  listing and the lines typed. \<open>pipeline\<close> computes the outcome and the actions of a run
  from these; \<open>main_refines\<close> below proves that every run of \<open>main\<close> is one of them.
\<close>

definition rc_of :: "shell \<Rightarrow> string \<Rightarrow> entries \<Rightarrow> int" where
  "rc_of sh c fs = returncode (fst (sh c fs))"

definition confirm :: "string list \<Rightarrow> unit outcome" where
  "confirm lines =
     (case lines of
        [] \<Rightarrow> Raise EOFError
      | r # _ \<Rightarrow> if lower r \<noteq> ''y'' then SysExit 1 else Return ())"

definition answer :: "string list \<Rightarrow> string option" where
  "answer lines = (case lines of [] \<Rightarrow> None | r # _ \<Rightarrow> Some r)"

definition removed :: "entries \<Rightarrow> string \<Rightarrow> bool" where
  "removed fs name \<longleftrightarrow>
     name = ''build'' \<or> name = ''dist'' \<or> (suffix ''.egg-info'' name \<and> is_dir [name] fs)"

definition version_check :: "entries \<Rightarrow> pyval outcome" where
  \<comment> \<open>what \<open>check_version_consistency\<close> returns or raises, from the working directory\<close>
  "version_check fs =
     (case resolve fs [''pyproject.toml''] of
        None \<Rightarrow> Return (PyBool False)
      | Some (Dir _) \<Rightarrow> Raise IsADirectoryError
      | Some (File p) \<Rightarrow>
          (case search_quoted ''version = '' p of
             None \<Rightarrow> Return (PyBool False)
           | Some v \<Rightarrow>
               (case resolve fs [''ragpack'', ''__init__.py''] of
                  None \<Rightarrow> Return (PyBool False)
                | Some (Dir _) \<Rightarrow> Raise IsADirectoryError
                | Some (File i) \<Rightarrow>
                    (case search_quoted ''__version__ = '' i of
                       None \<Rightarrow> Return (PyBool False)
                     | Some v' \<Rightarrow> Return (PyBool (v = v'))))))"

record codes =
  version :: "unit outcome"
  black_rc :: int
  flake8_rc :: int
  mypy_rc :: int
  pytest_rc :: int
  build_rc :: int
  check_rc :: int
  upload_rc :: int
  listing :: "unit outcome"

type_synonym observed = "unit outcome \<times> event list"

definition prepend :: "event list \<Rightarrow> observed \<Rightarrow> observed" where
  "prepend es r = (fst r, es @ snd r)"

definition ask :: "string \<Rightarrow> string list \<Rightarrow> (string list \<Rightarrow> observed) \<Rightarrow> observed" where
  "ask prompt lines k =
     (case lines of
        [] \<Rightarrow> (Raise EOFError, [Asked prompt None])
      | r # rs \<Rightarrow>
          prepend [Asked prompt (Some r)]
            (if lower r \<noteq> ''y'' then (SysExit 1, []) else k rs))"

definition from_upload :: "args \<Rightarrow> codes \<Rightarrow> string list \<Rightarrow> observed" where
  "from_upload a cs lines =
     (case target a of
        Build \<Rightarrow> (listing cs, [])
      | TestPyPI \<Rightarrow>
          prepend [Ran ''twine upload --repository testpypi dist/*'' (upload_rc cs)]
            (if upload_rc cs = 0 then (listing cs, []) else (SysExit 1, []))
      | PyPI \<Rightarrow>
          ask ''Are you sure you want to continue? (y/N): '' lines
            (\<lambda>_. prepend [Ran ''twine upload dist/*'' (upload_rc cs)]
                   (if upload_rc cs = 0 then (listing cs, []) else (SysExit 1, []))))"

definition from_check :: "args \<Rightarrow> codes \<Rightarrow> string list \<Rightarrow> observed" where
  "from_check a cs lines =
     prepend [Ran ''twine check dist/*'' (check_rc cs)]
       (if check_rc cs = 0 then from_upload a cs lines else (SysExit 1, []))"

definition from_build :: "args \<Rightarrow> codes \<Rightarrow> string list \<Rightarrow> observed" where
  "from_build a cs lines =
     prepend [Ran ''python -m build'' (build_rc cs)]
       (if build_rc cs = 0 then from_check a cs lines else (SysExit 1, []))"

definition from_tests :: "args \<Rightarrow> codes \<Rightarrow> string list \<Rightarrow> observed" where
  "from_tests a cs lines =
     prepend [Ran ''pytest tests/ -v --tb=short'' (pytest_rc cs)]
       (if pytest_rc cs = 0 then from_build a cs lines
        else ask ''Continue anyway? (y/N): '' lines (from_build a cs))"

definition from_quality :: "args \<Rightarrow> codes \<Rightarrow> string list \<Rightarrow> observed" where
  "from_quality a cs lines =
     prepend [Ran ''black --check ragpack tests examples scripts'' (black_rc cs),
              Ran ''flake8 ragpack tests examples scripts'' (flake8_rc cs),
              Ran ''mypy ragpack --ignore-missing-imports'' (mypy_rc cs)]
       (if black_rc cs = 0 \<and> flake8_rc cs = 0 \<and> mypy_rc cs = 0 then from_tests a cs lines
        else ask ''Continue anyway? (y/N): '' lines (from_tests a cs))"

definition pipeline :: "args \<Rightarrow> codes \<Rightarrow> string list \<Rightarrow> observed" where
  "pipeline a cs lines =
     (case version cs of
        Return _ \<Rightarrow> if skip_checks a then from_build a cs lines else from_quality a cs lines
      | halted \<Rightarrow> (halted, []))"

definition produces :: "unit stage \<Rightarrow> world \<Rightarrow> observed \<Rightarrow> bool" where
  "produces m w r \<longleftrightarrow> fst (m w) = fst r \<and> actions (snd (m w)) = actions w @ snd r"




subsection \<open>Concrete runs\<close>

definition newline :: char where
  "newline = CHR 0x0A"

definition pyproject_toml :: "string \<Rightarrow> string" where
  "pyproject_toml v =
     ''[project]'' @ [newline] @ ''name = \"ragpack\"'' @ [newline]
     @ ''version = \"'' @ v @ ''\"'' @ [newline]"

definition init_py :: "string \<Rightarrow> string" where
  "init_py v = ''__version__ = \"'' @ v @ ''\"'' @ [newline]"

definition project_tree :: "string \<Rightarrow> string \<Rightarrow> entries" where
  \<comment> \<open>a checkout with both version sources and some build leftovers\<close>
  "project_tree v v' =
     [(''pyproject.toml'', File (pyproject_toml v)),
      (''ragpack'', Dir [(''__init__.py'', File (init_py v'))]),
      (''build'', Dir [(''lib'', Dir [])]),
      (''dist'', File ''stale''),
      (''ragpack.egg-info'', Dir [(''PKG-INFO'', File ''Name: ragpack'')]),
      (''notes.egg-info'', File ''not a directory''),
      (''README.md'', File ''RAGPack'')]"

definition failing :: "string list \<Rightarrow> shell" where
  \<comment> \<open>external commands of which exactly the listed ones fail, with return code 1\<close>
  "failing bad c fs =
     (\<lparr>returncode = (if c \<in> set bad then 1 else 0), stdout = ''done'',
       stderr = (if c \<in> set bad then ''error'' else [])\<rparr>, fs)"

definition run_args :: "target \<Rightarrow> bool \<Rightarrow> bool \<Rightarrow> args" where
  "run_args t sc scl = \<lparr>target = t, skip_checks = sc, skip_clean = scl\<rparr>"

section \<open>Properties\<close>

subsection \<open>Sequencing and the primitive stages\<close>

lemma fst_and_then:
  "fst (and_then m k w) =
     (case fst (m w) of
        Return x \<Rightarrow> fst (k x (snd (m w)))
      | SysExit n \<Rightarrow> SysExit n
      | Raise e \<Rightarrow> Raise e)"
  by (simp add: and_then_def split: prod.splits outcome.splits)

lemma snd_and_then:
  "snd (and_then m k w) =
     (case fst (m w) of Return x \<Rightarrow> snd (k x (snd (m w))) | _ \<Rightarrow> snd (m w))"
  by (simp add: and_then_def split: prod.splits outcome.splits)

lemma fst_seq:
  "fst (seq m k w) =
     (case fst (m w) of
        Return x \<Rightarrow> fst (k (snd (m w)))
      | SysExit n \<Rightarrow> SysExit n
      | Raise e \<Rightarrow> Raise e)"
  by (simp add: seq_def fst_and_then)

lemma snd_seq:
  "snd (seq m k w) = (case fst (m w) of Return x \<Rightarrow> snd (k (snd (m w))) | _ \<Rightarrow> snd (m w))"
  by (simp add: seq_def snd_and_then)

lemma seq_assoc: "seq (seq m k) r = seq m (seq k r)"
  by (rule ext) (simp add: seq_def and_then_def split: prod.splits outcome.splits)

lemma seq_return: "seq (return ()) k = k"
  by (rule ext) (simp add: seq_def and_then_def return_def)

lemma print_simps:
  "fst (print s w) = Return ()"
  "files (snd (print s w)) = files w"
  "stdin (snd (print s w)) = stdin w"
  "actions (snd (print s w)) = actions w"
  by (simp_all add: print_def actions_def)

lemma return_simps:
  "fst (return x w) = Return x"
  "snd (return x w) = w"
  by (simp_all add: return_def)

lemma sys_exit_simps:
  "fst (sys_exit n w) = SysExit n"
  "snd (sys_exit n w) = w"
  by (simp_all add: sys_exit_def)

lemmas stage_simps =
  fst_and_then snd_and_then fst_seq snd_seq print_simps return_simps sys_exit_simps

lemma actions_files_update: "actions (w\<lparr>files := fs\<rparr>) = actions w"
  by (simp add: actions_def)

lemma input_simps:
  "fst (input p w) = (case stdin w of [] \<Rightarrow> Raise EOFError | r # _ \<Rightarrow> Return r)"
  "files (snd (input p w)) = files w"
  "stdin (snd (input p w)) = drop 1 (stdin w)"
  "actions (snd (input p w)) = actions w @ [Asked p (answer (stdin w))]"
  by (simp_all add: input_def actions_def answer_def split: list.splits)

lemma run_command_simps:
  "fst (run_command sh c d chk w) = Return (rc_of sh c (files w) = 0)"
  "files (snd (run_command sh c d chk w)) = snd (sh c (files w))"
  "stdin (snd (run_command sh c d chk w)) = stdin w"
  "actions (snd (run_command sh c d chk w)) = actions w @ [Ran c (rc_of sh c (files w))]"
  by (simp_all add: run_command_def seq_def and_then_def print_def return_def actions_def
      rc_of_def Let_def split_beta)

lemma of_char_eq_121: "((of_char c :: nat) = 121) = (c = CHR ''y'')"
proof -
  have "(of_char c :: nat) = of_char CHR ''y'' \<longleftrightarrow> c = CHR ''y''" by (rule of_char_eq_iff)
  then show ?thesis by simp
qed

lemma of_char_eq_89: "((of_char c :: nat) = 89) = (c = CHR ''Y'')"
proof -
  have "(of_char c :: nat) = of_char CHR ''Y'' \<longleftrightarrow> c = CHR ''Y''" by (rule of_char_eq_iff)
  then show ?thesis by simp
qed

lemma lower_char_y: "lower_char c = CHR ''y'' \<longleftrightarrow> c = CHR ''y'' \<or> c = CHR ''Y''"
proof -
  define n where "n = (of_char c :: nat)"
  have lt: "n < 256" unfolding n_def by (rule nat_of_char_less_256)
  have "(of_char (lower_char c) :: nat) = 121 \<longleftrightarrow> n = 121 \<or> n = 89"
    using lt unfolding lower_char_def Let_def n_def[symmetric]
    by (auto simp add: of_char_of n_def)
  then show ?thesis
    by (simp add: of_char_eq_121 of_char_eq_89 n_def)
qed

lemma lower_y: "lower r = ''y'' \<longleftrightarrow> r = ''y'' \<or> r = ''Y''"
  by (cases r) (auto simp: lower_def lower_char_y)

subsection \<open>The working directory under clean_build_artifacts\<close>

lemma is_dir_single:
  "is_dir [n] fs = (case map_of fs n of Some (Dir _) \<Rightarrow> True | _ \<Rightarrow> False)"
  by (simp add: is_dir_def split: option.splits)

lemma exists_single: "exists [n] fs = (map_of fs n \<noteq> None)"
  by (simp add: exists_def split: option.splits)

lemma map_of_remove_entry:
  "map_of (remove_entry p fs) n = (if n = p then None else map_of fs n)"
  by (induction fs) (auto simp: remove_entry_def)

lemma is_dir_remove_entry: "is_dir [n] (remove_entry p fs) = (n \<noteq> p \<and> is_dir [n] fs)"
  by (simp add: is_dir_single map_of_remove_entry)

lemma remove_entry_absent: "\<not> exists [p] fs \<Longrightarrow> remove_entry p fs = fs"
proof -
  assume "\<not> exists [p] fs"
  then have "map_of fs p = None" by (simp add: exists_single)
  then have "p \<notin> fst ` set fs" by (simp add: map_of_eq_None_iff)
  then show ?thesis by (force simp: remove_entry_def filter_id_conv)
qed

lemma rmtree_dir:
  "is_dir [p] (files w) \<Longrightarrow> rmtree p w = (Return (), w\<lparr>files := remove_entry p (files w)\<rparr>)"
  by (auto simp: rmtree_def is_dir_single split: option.splits node.splits)

lemma unlink_file:
  "exists [p] (files w) \<Longrightarrow> \<not> is_dir [p] (files w) \<Longrightarrow>
   unlink p w = (Return (), w\<lparr>files := remove_entry p (files w)\<rparr>)"
  by (auto simp: unlink_def is_dir_single exists_single split: option.splits node.splits)

lemma remove_egg_info_dirs_simps:
  "fst (remove_egg_info_dirs ps w) = Return ()"
  "files (snd (remove_egg_info_dirs ps w)) =
     filter (\<lambda>(n, _). \<not> (n \<in> set ps \<and> is_dir [n] (files w))) (files w)"
  "stdin (snd (remove_egg_info_dirs ps w)) = stdin w"
  "actions (snd (remove_egg_info_dirs ps w)) = actions w"
proof (induction ps arbitrary: w)
  case Nil
  { case 1 show ?case by (simp add: return_def) }
  { case 2 show ?case by (simp add: return_def) }
  { case 3 show ?case by (simp add: return_def) }
  { case 4 show ?case by (simp add: return_def) }
next
  case (Cons p ps)
  { case 1 show ?case by (simp add: stage_simps Cons.IH rmtree_dir) }
  { case 3 show ?case by (simp add: stage_simps Cons.IH rmtree_dir) }
  { case 4 show ?case by (simp add: stage_simps Cons.IH rmtree_dir actions_files_update) }
  { case 2 show ?case
    proof (cases "is_dir [p] (files w)")
      case True
      then show ?thesis
        by (simp add: stage_simps Cons.IH rmtree_dir is_dir_remove_entry)
           (auto simp: remove_entry_def intro!: filter_cong)
    next
      case False
      then show ?thesis
        by (auto simp add: stage_simps Cons.IH intro!: filter_cong)
    qed }
qed


lemma clean_pattern_named:
  assumes "p \<noteq> ''*.egg-info''"
  shows "fst (clean_pattern p w) = Return ()"
    and "files (snd (clean_pattern p w)) = remove_entry p (files w)"
    and "stdin (snd (clean_pattern p w)) = stdin w"
    and "actions (snd (clean_pattern p w)) = actions w"
  using assms
  by (auto simp add: clean_pattern_def seq_def and_then_def print_def return_def rmtree_dir
      unlink_file remove_entry_absent actions_def)

lemma clean_pattern_egg_info:
  "fst (clean_pattern ''*.egg-info'' w) = Return ()"
  "files (snd (clean_pattern ''*.egg-info'' w)) =
     filter (\<lambda>(n, _). \<not> (suffix ''.egg-info'' n \<and> is_dir [n] (files w))) (files w)"
  "stdin (snd (clean_pattern ''*.egg-info'' w)) = stdin w"
  "actions (snd (clean_pattern ''*.egg-info'' w)) = actions w"
  by (force simp add: clean_pattern_def remove_egg_info_dirs_simps glob_star_def
      intro!: filter_cong)+

lemma clean_build_artifacts_simps:
  "fst (clean_build_artifacts w) = Return ()"
  "files (snd (clean_build_artifacts w)) = filter (\<lambda>(n, _). \<not> removed (files w) n) (files w)"
  "stdin (snd (clean_build_artifacts w)) = stdin w"
  "actions (snd (clean_build_artifacts w)) = actions w"
proof -
  note simps = clean_build_artifacts_def fst_seq snd_seq return_simps
    clean_pattern_named clean_pattern_egg_info
  show "fst (clean_build_artifacts w) = Return ()"
    by (simp add: simps)
  show "stdin (snd (clean_build_artifacts w)) = stdin w"
    by (simp add: simps)
  show "actions (snd (clean_build_artifacts w)) = actions w"
    by (simp add: simps)
  have "files (snd (clean_build_artifacts w)) =
     filter (\<lambda>(n, _). \<not> (suffix ''.egg-info'' n
          \<and> is_dir [n] (remove_entry ''dist'' (remove_entry ''build'' (files w)))))
       (remove_entry ''dist'' (remove_entry ''build'' (files w)))"
    by (simp add: simps)
  also have "\<dots> = filter (\<lambda>(n, _). \<not> removed (files w) n) (files w)"
    by (simp add: is_dir_remove_entry)
       (auto simp: remove_entry_def removed_def intro!: filter_cong)
  finally show "files (snd (clean_build_artifacts w)) =
      filter (\<lambda>(n, _). \<not> removed (files w) n) (files w)" .
qed

lemma map_of_kept:
  "map_of (filter (\<lambda>(n, _). \<not> removed fs0 n) fs) name =
     (if removed fs0 name then None else map_of fs name)"
  by (induction fs) auto


lemma resolve_after_clean:
  "resolve (files (snd (clean_build_artifacts w))) (name # rest) =
     (if removed (files w) name then None else resolve (files w) (name # rest))"
  by (simp add: clean_build_artifacts_simps map_of_kept)

subsection \<open>What each step of main does to the actions\<close>

lemma banner_simps:
  "fst (banner a w) = Return ()"
  "files (snd (banner a w)) = files w"
  "stdin (snd (banner a w)) = stdin w"
  "actions (snd (banner a w)) = actions w"
  by (simp_all add: banner_def stage_simps)

lemma step1_clean_simps:
  "fst (step1_clean a w) = Return ()"
  "files (snd (step1_clean a w)) =
     (if skip_clean a then files w else filter (\<lambda>(n, _). \<not> removed (files w) n) (files w))"
  "stdin (snd (step1_clean a w)) = stdin w"
  "actions (snd (step1_clean a w)) = actions w"
  by (auto simp add: step1_clean_def clean_build_artifacts_simps return_simps)

lemma check_version_consistency_simps:
  "files (snd (check_version_consistency w)) = files w"
  "stdin (snd (check_version_consistency w)) = stdin w"
  "actions (snd (check_version_consistency w)) = actions w"
  by (auto simp add: check_version_consistency_def seq_def and_then_def print_def return_def
      read_text_def actions_def split: option.splits node.splits)

lemma step2_version_simps:
  "files (snd (step2_version w)) = files w"
  "stdin (snd (step2_version w)) = stdin w"
  "actions (snd (step2_version w)) = actions w"
  by (auto simp add: step2_version_def stage_simps check_version_consistency_simps
      split: outcome.splits)

lemma check_version_consistency_result:
  "fst (check_version_consistency w) = version_check (files w)"
  by (auto simp add: check_version_consistency_def version_check_def exists_def
      seq_def and_then_def print_def return_def read_text_def
      split: option.splits node.splits)

lemma step2_version_result:
  "fst (step2_version w) =
     (case version_check (files w) of
        Return v \<Rightarrow> if truthy v then Return () else SysExit 1
      | SysExit n \<Rightarrow> SysExit n
      | Raise e \<Rightarrow> Raise e)"
  by (simp add: step2_version_def stage_simps check_version_consistency_result
      split: outcome.splits)

lemma run_checks_simps:
  "fst (run_checks sh [(c1, d1), (c2, d2), (c3, d3)] ap w) =
     Return (ap \<and> rc_of sh c1 (files w) = 0
        \<and> rc_of sh c2 (snd (sh c1 (files w))) = 0
        \<and> rc_of sh c3 (snd (sh c2 (snd (sh c1 (files w))))) = 0)"
  "files (snd (run_checks sh [(c1, d1), (c2, d2), (c3, d3)] ap w)) =
     snd (sh c3 (snd (sh c2 (snd (sh c1 (files w))))))"
  "stdin (snd (run_checks sh [(c1, d1), (c2, d2), (c3, d3)] ap w)) = stdin w"
  "actions (snd (run_checks sh [(c1, d1), (c2, d2), (c3, d3)] ap w)) =
     actions w @ [Ran c1 (rc_of sh c1 (files w)),
                  Ran c2 (rc_of sh c2 (snd (sh c1 (files w)))),
                  Ran c3 (rc_of sh c3 (snd (sh c2 (snd (sh c1 (files w))))))]"
  by (auto simp add: stage_simps run_command_simps)

lemma run_quality_checks_simps:
  "fst (run_quality_checks sh w) =
     Return (rc_of sh ''black --check ragpack tests examples scripts'' (files w) = 0
        \<and> rc_of sh ''flake8 ragpack tests examples scripts''
             (snd (sh ''black --check ragpack tests examples scripts'' (files w))) = 0
        \<and> rc_of sh ''mypy ragpack --ignore-missing-imports''
             (snd (sh ''flake8 ragpack tests examples scripts''
               (snd (sh ''black --check ragpack tests examples scripts'' (files w))))) = 0)"
  "stdin (snd (run_quality_checks sh w)) = stdin w"
  "actions (snd (run_quality_checks sh w)) =
     actions w @
     [Ran ''black --check ragpack tests examples scripts''
        (rc_of sh ''black --check ragpack tests examples scripts'' (files w)),
      Ran ''flake8 ragpack tests examples scripts''
        (rc_of sh ''flake8 ragpack tests examples scripts''
           (snd (sh ''black --check ragpack tests examples scripts'' (files w)))),
      Ran ''mypy ragpack --ignore-missing-imports''
        (rc_of sh ''mypy ragpack --ignore-missing-imports''
           (snd (sh ''flake8 ragpack tests examples scripts''
             (snd (sh ''black --check ragpack tests examples scripts'' (files w))))))]"
  by (simp_all add: run_quality_checks_def checks_def run_checks_simps del: run_checks.simps)

lemma step3_quality_simps:
  "fst (step3_quality sh w) =
     (if fst (run_quality_checks sh w) = Return True then Return () else confirm (stdin w))"
  "stdin (snd (step3_quality sh w)) =
     (if fst (run_quality_checks sh w) = Return True then stdin w else drop 1 (stdin w))"
  "actions (snd (step3_quality sh w)) =
     actions (snd (run_quality_checks sh w)) @
     (if fst (run_quality_checks sh w) = Return True then []
      else [Asked ''Continue anyway? (y/N): '' (answer (stdin w))])"
  by (auto simp add: step3_quality_def stage_simps input_simps run_quality_checks_simps
      confirm_def split: list.splits)

lemma step4_tests_simps:
  "fst (step4_tests sh w) =
     (if rc_of sh ''pytest tests/ -v --tb=short'' (files w) = 0 then Return ()
      else confirm (stdin w))"
  "stdin (snd (step4_tests sh w)) =
     (if rc_of sh ''pytest tests/ -v --tb=short'' (files w) = 0 then stdin w
      else drop 1 (stdin w))"
  "actions (snd (step4_tests sh w)) =
     actions w @ Ran ''pytest tests/ -v --tb=short''
                   (rc_of sh ''pytest tests/ -v --tb=short'' (files w)) #
     (if rc_of sh ''pytest tests/ -v --tb=short'' (files w) = 0 then []
      else [Asked ''Continue anyway? (y/N): '' (answer (stdin w))])"
  by (auto simp add: step4_tests_def run_tests_def stage_simps input_simps run_command_simps
      confirm_def split: list.splits)

lemma step5_build_simps:
  "fst (step5_build sh w) =
     (if rc_of sh ''python -m build'' (files w) = 0 then Return () else SysExit 1)"
  "stdin (snd (step5_build sh w)) = stdin w"
  "actions (snd (step5_build sh w)) =
     actions w @ [Ran ''python -m build'' (rc_of sh ''python -m build'' (files w))]"
  by (auto simp add: step5_build_def build_package_def stage_simps run_command_simps)

lemma step6_check_simps:
  "fst (step6_check sh w) =
     (if rc_of sh ''twine check dist/*'' (files w) = 0 then Return () else SysExit 1)"
  "stdin (snd (step6_check sh w)) = stdin w"
  "actions (snd (step6_check sh w)) =
     actions w @ [Ran ''twine check dist/*'' (rc_of sh ''twine check dist/*'' (files w))]"
  by (auto simp add: step6_check_def check_package_def stage_simps run_command_simps)

lemma step7_upload_simps:
  "fst (step7_upload a sh w) =
     (case target a of
        Build \<Rightarrow> Return ()
      | TestPyPI \<Rightarrow>
          if rc_of sh ''twine upload --repository testpypi dist/*'' (files w) = 0
          then Return () else SysExit 1
      | PyPI \<Rightarrow>
          (case confirm (stdin w) of
             Return _ \<Rightarrow>
               if rc_of sh ''twine upload dist/*'' (files w) = 0 then Return () else SysExit 1
           | SysExit n \<Rightarrow> SysExit n
           | Raise e \<Rightarrow> Raise e))"
  "actions (snd (step7_upload a sh w)) =
     actions w @
     (case target a of
        Build \<Rightarrow> []
      | TestPyPI \<Rightarrow>
          [Ran ''twine upload --repository testpypi dist/*''
             (rc_of sh ''twine upload --repository testpypi dist/*'' (files w))]
      | PyPI \<Rightarrow>
          Asked ''Are you sure you want to continue? (y/N): '' (answer (stdin w)) #
          (if confirm (stdin w) = Return ()
           then [Ran ''twine upload dist/*'' (rc_of sh ''twine upload dist/*'' (files w))]
           else []))"
  by (auto simp add: step7_upload_def upload_to_test_pypi_def upload_to_pypi_def stage_simps
      input_simps run_command_simps confirm_def split: list.splits target.splits)

lemma artifacts_quiet: "filter is_action (map (\<lambda>(x, y). PrintArtifact x y) xs) = []"
  by (induction xs) auto

lemma show_artifacts_actions: "actions (snd (show_artifacts w)) = actions w"
  by (auto simp add: show_artifacts_def seq_def and_then_def print_def return_def
      artifacts_quiet actions_def split: option.splits node.splits)

subsection \<open>Every run of main is a run of the pipeline\<close>

lemma from_upload_frame:
  "from_upload a (cs\<lparr>check_rc := x\<rparr>) = from_upload a cs"
  "from_upload a (cs\<lparr>build_rc := x\<rparr>) = from_upload a cs"
  "from_upload a (cs\<lparr>pytest_rc := x\<rparr>) = from_upload a cs"
  "from_upload a (cs\<lparr>version := v\<rparr>) = from_upload a cs"
  "from_upload a (cs\<lparr>black_rc := x, flake8_rc := y, mypy_rc := z\<rparr>) = from_upload a cs"
  by (rule ext, simp add: from_upload_def cong: target.case_cong)+

lemma from_check_frame:
  "from_check a (cs\<lparr>build_rc := x\<rparr>) = from_check a cs"
  "from_check a (cs\<lparr>pytest_rc := x\<rparr>) = from_check a cs"
  "from_check a (cs\<lparr>version := v\<rparr>) = from_check a cs"
  "from_check a (cs\<lparr>black_rc := x, flake8_rc := y, mypy_rc := z\<rparr>) = from_check a cs"
  by (rule ext, simp add: from_check_def from_upload_frame)+

lemma from_build_frame:
  "from_build a (cs\<lparr>pytest_rc := x\<rparr>) = from_build a cs"
  "from_build a (cs\<lparr>version := v\<rparr>) = from_build a cs"
  "from_build a (cs\<lparr>black_rc := x, flake8_rc := y, mypy_rc := z\<rparr>) = from_build a cs"
  by (rule ext, simp add: from_build_def from_check_frame)+

lemma from_tests_frame:
  "from_tests a (cs\<lparr>version := v\<rparr>) = from_tests a cs"
  "from_tests a (cs\<lparr>black_rc := x, flake8_rc := y, mypy_rc := z\<rparr>) = from_tests a cs"
  by (rule ext, simp add: from_tests_def from_build_frame)+

lemma from_quality_frame:
  "from_quality a (cs\<lparr>version := v\<rparr>) = from_quality a cs"
  by (rule ext, simp add: from_quality_def from_tests_frame)

lemma upload_refines:
  "\<exists>cs. produces (seq (step7_upload a sh) show_artifacts) w (from_upload a cs (stdin w))"
proof -
  define cs where "cs = \<lparr>version = Return (), black_rc = 0, flake8_rc = 0, mypy_rc = 0,
     pytest_rc = 0, build_rc = 0, check_rc = 0,
     upload_rc =
       (if target a = TestPyPI
        then rc_of sh ''twine upload --repository testpypi dist/*'' (files w)
        else rc_of sh ''twine upload dist/*'' (files w)),
     listing = fst (show_artifacts (snd (step7_upload a sh w)))\<rparr>"
  have "produces (seq (step7_upload a sh) show_artifacts) w (from_upload a cs (stdin w))"
    by (auto simp add: produces_def from_upload_def ask_def prepend_def cs_def fst_seq snd_seq
        step7_upload_simps show_artifacts_actions confirm_def answer_def
        split: target.splits list.splits outcome.splits)
  then show ?thesis ..
qed

lemma check_refines:
  "\<exists>cs. produces (seq (step6_check sh) (seq (step7_upload a sh) show_artifacts)) w
          (from_check a cs (stdin w))"
proof -
  obtain cs where cs:
    "produces (seq (step7_upload a sh) show_artifacts) (snd (step6_check sh w))
       (from_upload a cs (stdin (snd (step6_check sh w))))"
    using upload_refines by blast
  have "produces (seq (step6_check sh) (seq (step7_upload a sh) show_artifacts)) w
          (from_check a (cs\<lparr>check_rc := rc_of sh ''twine check dist/*'' (files w)\<rparr>) (stdin w))"
    using cs
    by (simp add: produces_def from_check_def from_upload_frame prepend_def fst_seq snd_seq
        step6_check_simps)
  then show ?thesis ..
qed

lemma build_refines:
  "\<exists>cs. produces
          (seq (step5_build sh) (seq (step6_check sh) (seq (step7_upload a sh) show_artifacts)))
          w (from_build a cs (stdin w))"
proof -
  obtain cs where cs:
    "produces (seq (step6_check sh) (seq (step7_upload a sh) show_artifacts))
       (snd (step5_build sh w)) (from_check a cs (stdin (snd (step5_build sh w))))"
    using check_refines by blast
  have "produces
          (seq (step5_build sh) (seq (step6_check sh) (seq (step7_upload a sh) show_artifacts)))
          w (from_build a (cs\<lparr>build_rc := rc_of sh ''python -m build'' (files w)\<rparr>) (stdin w))"
    using cs
    by (simp add: produces_def from_build_def from_check_frame prepend_def fst_seq snd_seq
        step5_build_simps)
  then show ?thesis ..
qed

lemma tests_refines:
  "\<exists>cs. produces
          (seq (step4_tests sh)
            (seq (step5_build sh) (seq (step6_check sh) (seq (step7_upload a sh) show_artifacts))))
          w (from_tests a cs (stdin w))"
proof -
  obtain cs where cs:
    "produces
       (seq (step5_build sh) (seq (step6_check sh) (seq (step7_upload a sh) show_artifacts)))
       (snd (step4_tests sh w)) (from_build a cs (stdin (snd (step4_tests sh w))))"
    using build_refines by blast
  have "produces
          (seq (step4_tests sh)
            (seq (step5_build sh) (seq (step6_check sh) (seq (step7_upload a sh) show_artifacts))))
          w (from_tests a
               (cs\<lparr>pytest_rc := rc_of sh ''pytest tests/ -v --tb=short'' (files w)\<rparr>) (stdin w))"
    using cs
    by (auto simp add: produces_def from_tests_def from_build_frame prepend_def ask_def
        fst_seq snd_seq step4_tests_simps confirm_def answer_def split: list.splits)
  then show ?thesis ..
qed

lemma quality_refines:
  "\<exists>cs. produces
          (seq (step3_quality sh) (seq (step4_tests sh)
            (seq (step5_build sh) (seq (step6_check sh) (seq (step7_upload a sh) show_artifacts)))))
          w (from_quality a cs (stdin w))"
proof -
  obtain cs where cs:
    "produces
       (seq (step4_tests sh)
         (seq (step5_build sh) (seq (step6_check sh) (seq (step7_upload a sh) show_artifacts))))
       (snd (step3_quality sh w)) (from_tests a cs (stdin (snd (step3_quality sh w))))"
    using tests_refines by blast
  have "produces
          (seq (step3_quality sh) (seq (step4_tests sh)
            (seq (step5_build sh) (seq (step6_check sh) (seq (step7_upload a sh) show_artifacts)))))
          w (from_quality a
               (cs\<lparr>black_rc := rc_of sh ''black --check ragpack tests examples scripts'' (files w),
                   flake8_rc := rc_of sh ''flake8 ragpack tests examples scripts''
                     (snd (sh ''black --check ragpack tests examples scripts'' (files w))),
                   mypy_rc := rc_of sh ''mypy ragpack --ignore-missing-imports''
                     (snd (sh ''flake8 ragpack tests examples scripts''
                       (snd (sh ''black --check ragpack tests examples scripts'' (files w)))))\<rparr>)
               (stdin w))"
    using cs
    by (auto simp add: produces_def from_quality_def from_tests_frame prepend_def ask_def
        fst_seq snd_seq step3_quality_simps run_quality_checks_simps confirm_def answer_def
        split: list.splits)
  then show ?thesis ..
qed

lemma main_refines:
  "\<exists>cs. version cs =
          fst (step2_version
            (snd (step1_clean a (snd (banner a \<lparr>files = fs, stdin = lines, trace = []\<rparr>)))))
      \<and> fst (main a sh fs lines) = fst (pipeline a cs lines)
      \<and> actions (snd (main a sh fs lines)) = snd (pipeline a cs lines)"
proof -
  define w0 where "w0 = \<lparr>files = fs, stdin = lines, trace = []\<rparr>"
  define w2 where "w2 = snd (step1_clean a (snd (banner a w0)))"
  define w3 where "w3 = snd (step2_version w2)"
  define tail5 where
    "tail5 = seq (step5_build sh) (seq (step6_check sh) (seq (step7_upload a sh) show_artifacts))"
  define rest where
    "rest = (if \<not> skip_checks a then seq (step3_quality sh) (seq (step4_tests sh) tail5)
             else tail5)"
  have w0: "stdin w0 = lines" "actions w0 = []"
    by (simp_all add: w0_def actions_def)
  have w3: "stdin w3 = lines" "actions w3 = []"
    by (simp_all add: w3_def w2_def w0 step2_version_simps step1_clean_simps banner_simps)
  have "\<exists>cs. produces rest w3
          (if \<not> skip_checks a then from_quality a cs lines else from_build a cs lines)"
    using quality_refines[of sh a w3] build_refines[of sh a w3]
    by (simp add: rest_def tail5_def w3)
  then obtain cs where cs:
    "produces rest w3
       (if \<not> skip_checks a then from_quality a cs lines else from_build a cs lines)" ..
  have r: "main_from a sh = seq (banner a) (seq (step1_clean a) (seq step2_version rest))"
    by (cases "skip_checks a")
       (simp_all add: main_from_def rest_def tail5_def seq_assoc seq_return)
  have m1: "fst (main a sh fs lines) =
      (case fst (step2_version w2) of
         Return _ \<Rightarrow> fst (rest w3) | SysExit n \<Rightarrow> SysExit n | Raise e \<Rightarrow> Raise e)"
    unfolding main_def r w3_def w2_def w0_def
    by (simp add: fst_seq snd_seq banner_simps step1_clean_simps)
  have m2: "actions (snd (main a sh fs lines)) =
      (case fst (step2_version w2) of Return _ \<Rightarrow> actions (snd (rest w3)) | _ \<Rightarrow> [])"
    using w3(2) unfolding main_def r w3_def w2_def w0_def
    by (simp add: fst_seq snd_seq banner_simps step1_clean_simps split: outcome.splits)
  have "fst (main a sh fs lines) =
          fst (pipeline a (cs\<lparr>version := fst (step2_version w2)\<rparr>) lines)
      \<and> actions (snd (main a sh fs lines)) =
          snd (pipeline a (cs\<lparr>version := fst (step2_version w2)\<rparr>) lines)"
    using cs w3
    by (auto simp add: m1 m2 pipeline_def produces_def from_quality_frame from_build_frame
        split: outcome.splits)
  then show ?thesis
    unfolding w2_def w0_def
    by (intro exI[of _ "cs\<lparr>version := fst (step2_version w2)\<rparr>"]) (simp add: w2_def w0_def)
qed

lemmas pipeline_defs =
  pipeline_def from_quality_def from_tests_def from_build_def from_check_def from_upload_def
  ask_def prepend_def

subsection \<open>Evaluating concrete runs\<close>

lemma rc_of_failing: "rc_of (failing bad) c fs = (if c \<in> set bad then 1 else 0)"
  by (simp add: rc_of_def failing_def)

lemma failing_files: "snd (failing bad c fs) = fs"
  by (simp add: failing_def)

lemma fresh_world:
  "stdin \<lparr>files = fs, stdin = lines, trace = []\<rparr> = lines"
  "files \<lparr>files = fs, stdin = lines, trace = []\<rparr> = fs"
  "actions \<lparr>files = fs, stdin = lines, trace = []\<rparr> = []"
  by (simp_all add: actions_def)

lemma version_check_cleaned_tree:
  "version_check (filter (\<lambda>(n, _). \<not> removed (project_tree ''1.2.0'' ''1.2.0'') n)
     (project_tree ''1.2.0'' ''1.2.0'')) = Return (PyBool True)"
  by code_simp

lemma version_check_tree:
  "version_check (project_tree ''1.2.0'' ''1.2.0'') = Return (PyBool True)"
  "version_check (project_tree ''1.2.0'' ''1.1.9'') = Return (PyBool False)"
  by code_simp+

lemmas run_simps =
  fst_seq snd_seq return_simps banner_simps step1_clean_simps step2_version_simps
  step2_version_result step3_quality_simps run_quality_checks_simps step4_tests_simps
  step5_build_simps step6_check_simps step7_upload_simps show_artifacts_actions
  rc_of_failing failing_files fresh_world confirm_def answer_def run_args_def
  version_check_cleaned_tree version_check_tree

subsection \<open>The command runner\<close>























subsection \<open>The build stage\<close>

lemma pipeline_build_failure:
  "snd (pipeline a cs lines) = pre @ Ran ''python -m build'' r # post \<Longrightarrow> r \<noteq> 0 \<Longrightarrow>
   fst (pipeline a cs lines) = SysExit 1 \<and> post = []"
  by (auto simp add: pipeline_defs Cons_eq_append_conv
      split: outcome.splits if_splits target.splits list.splits)

text \<open>
  C4. In every run, when the build command ends with a non-zero return code the run ends
  there with exit code 1: the failed build is the last action of the run, so no question
  is asked after it and neither the package check nor an upload is run.
\<close>

theorem build_failure_is_fatal:
  assumes "actions (snd (main a sh fs lines)) = pre @ Ran ''python -m build'' r # post"
    and "r \<noteq> 0"
  shows "fst (main a sh fs lines) = SysExit 1
       \<and> exit_code (fst (main a sh fs lines)) = 1
       \<and> post = []"
proof -
  obtain cs where "fst (main a sh fs lines) = fst (pipeline a cs lines)"
    and "actions (snd (main a sh fs lines)) = snd (pipeline a cs lines)"
    using main_refines by blast
  then show ?thesis
    using assms pipeline_build_failure[of a cs lines pre r post] by simp
qed

theorem build_failure_is_fatal_witness:
  "actions (snd (main (run_args PyPI False False) (failing [''python -m build''])
      (project_tree ''1.2.0'' ''1.2.0'') [])) =
     [Ran ''black --check ragpack tests examples scripts'' 0,
      Ran ''flake8 ragpack tests examples scripts'' 0,
      Ran ''mypy ragpack --ignore-missing-imports'' 0,
      Ran ''pytest tests/ -v --tb=short'' 0] @ Ran ''python -m build'' 1 # []
   \<and> (1 :: int) \<noteq> 0
   \<and> exit_code (fst (main (run_args PyPI False False) (failing [''python -m build''])
        (project_tree ''1.2.0'' ''1.2.0'') [])) = 1"
proof -
  have h: "actions (snd (main (run_args PyPI False False) (failing [''python -m build''])
      (project_tree ''1.2.0'' ''1.2.0'') [])) =
     [Ran ''black --check ragpack tests examples scripts'' 0,
      Ran ''flake8 ragpack tests examples scripts'' 0,
      Ran ''mypy ragpack --ignore-missing-imports'' 0,
      Ran ''pytest tests/ -v --tb=short'' 0] @ Ran ''python -m build'' 1 # []"
    unfolding main_def main_from_def by (simp add: run_simps)
  have n: "(1 :: int) \<noteq> 0" by simp
  from build_failure_is_fatal[OF h n] h show ?thesis by simp
qed

subsection \<open>Cleaning\<close>



text \<open>
  C10. What \<open>clean_build_artifacts\<close> takes away is exactly this: the entries named \<open>build\<close>
  and \<open>dist\<close>, file or directory alike, and the directories whose name ends with
  \<open>.egg-info\<close>. Every other path resolves after the run to what it resolved to before; a
  regular file whose name ends with \<open>.egg-info\<close> is among them.
\<close>

theorem clean_removes_only_build_artifacts:
  "resolve (files (snd (clean_build_artifacts w))) (name # rest) =
     (if name = ''build'' \<or> name = ''dist''
         \<or> (suffix ''.egg-info'' name \<and> is_dir [name] (files w))
      then None
      else resolve (files w) (name # rest))"
  using resolve_after_clean[of w name rest] by (simp add: removed_def)

subsection \<open>The version check\<close>

lemma in_actions: "is_action e \<Longrightarrow> e \<in> set (actions w) \<longleftrightarrow> e \<in> set (trace w)"
  by (simp add: actions_def)









subsection \<open>Skipping the checks\<close>

lemma pipeline_skip_checks:
  assumes "skip_checks a"
  shows "Ran ''black --check ragpack tests examples scripts'' r \<notin> set (snd (pipeline a cs lines))"
    and "Ran ''flake8 ragpack tests examples scripts'' r \<notin> set (snd (pipeline a cs lines))"
    and "Ran ''mypy ragpack --ignore-missing-imports'' r \<notin> set (snd (pipeline a cs lines))"
    and "Ran ''pytest tests/ -v --tb=short'' r \<notin> set (snd (pipeline a cs lines))"
    and "Asked ''Continue anyway? (y/N): '' ans \<notin> set (snd (pipeline a cs lines))"
  using assms
  by (auto simp add: pipeline_def from_build_def from_check_def from_upload_def ask_def
      prepend_def split: outcome.splits if_splits target.splits list.splits)

text \<open>
  C6. In a run with \<open>--skip-checks\<close> none of the three quality commands (formatting,
  linting, type checking) and not the test command is ever run, with any return code, and
  the question "Continue anyway?" is never asked.
\<close>

theorem skip_checks_skips_checks_and_tests:
  assumes "skip_checks a"
  shows "Ran ''black --check ragpack tests examples scripts'' r
           \<notin> set (trace (snd (main a sh fs lines)))
       \<and> Ran ''flake8 ragpack tests examples scripts'' r
           \<notin> set (trace (snd (main a sh fs lines)))
       \<and> Ran ''mypy ragpack --ignore-missing-imports'' r
           \<notin> set (trace (snd (main a sh fs lines)))
       \<and> Ran ''pytest tests/ -v --tb=short'' r
           \<notin> set (trace (snd (main a sh fs lines)))
       \<and> Asked ''Continue anyway? (y/N): '' ans
           \<notin> set (trace (snd (main a sh fs lines)))"
proof -
  obtain cs where "actions (snd (main a sh fs lines)) = snd (pipeline a cs lines)"
    using main_refines by blast
  then show ?thesis
    using pipeline_skip_checks[OF assms, of _ cs lines]
    by (simp flip: in_actions)
qed

theorem skip_checks_skips_checks_and_tests_witness:
  "skip_checks (run_args Build True False)
   \<and> Ran ''pytest tests/ -v --tb=short'' 1
       \<notin> set (trace (snd (main (run_args Build True False)
            (failing [''pytest tests/ -v --tb=short'']) (project_tree ''1.2.0'' ''1.2.0'') [])))
   \<and> Asked ''Continue anyway? (y/N): '' None
       \<notin> set (trace (snd (main (run_args Build True False)
            (failing [''pytest tests/ -v --tb=short'']) (project_tree ''1.2.0'' ''1.2.0'') [])))"
proof -
  have h: "skip_checks (run_args Build True False)"
    by (simp add: run_args_def)
  from skip_checks_skips_checks_and_tests[OF h] h show ?thesis by blast
qed

subsection \<open>Quality checks\<close>

lemma pipeline_quality:
  assumes "snd (pipeline a cs lines) =
      pre @ Ran ''black --check ragpack tests examples scripts'' r1 # post"
  shows "\<exists>r2 r3 post'. post = Ran ''flake8 ragpack tests examples scripts'' r2
            # Ran ''mypy ragpack --ignore-missing-imports'' r3 # post'
          \<and> (\<not> (r1 = 0 \<and> r2 = 0 \<and> r3 = 0) \<longrightarrow>
               (\<exists>ans post''. post' = Asked ''Continue anyway? (y/N): '' ans # post''
                  \<and> (\<forall>r. ans = Some r \<and> lower r = ''y'' \<longrightarrow>
                        (\<exists>t post3. post'' = Ran ''pytest tests/ -v --tb=short'' t # post3))))"
  using assms
  by (auto simp add: pipeline_defs Cons_eq_append_conv
      split: outcome.splits if_splits target.splits list.splits)

text \<open>
  C7. \<open>run_quality_checks\<close> always runs all three commands, formatting check, linting and
  type checking, in this order and whatever the earlier ones returned, and its result is
  true exactly when all three return codes are zero. In \<open>main\<close>, a formatting check is
  always followed by the other two; when one of the three failed, the next action is the
  question "Continue anyway?" and not the end of the run, and an answer that lowercases to
  \<open>y\<close> lets the run go on to the tests.
\<close>

theorem quality_checks_run_all_then_prompt:
  "(\<exists>r1 r2 r3.
      actions (snd (run_quality_checks sh w)) =
        actions w @ [Ran ''black --check ragpack tests examples scripts'' r1,
                     Ran ''flake8 ragpack tests examples scripts'' r2,
                     Ran ''mypy ragpack --ignore-missing-imports'' r3]
      \<and> fst (run_quality_checks sh w) = Return (r1 = 0 \<and> r2 = 0 \<and> r3 = 0))
   \<and> (actions (snd (main a sh fs lines)) =
         pre @ Ran ''black --check ragpack tests examples scripts'' rb # post \<longrightarrow>
       (\<exists>r2 r3 post'. post = Ran ''flake8 ragpack tests examples scripts'' r2
            # Ran ''mypy ragpack --ignore-missing-imports'' r3 # post'
          \<and> (\<not> (rb = 0 \<and> r2 = 0 \<and> r3 = 0) \<longrightarrow>
               (\<exists>ans post''. post' = Asked ''Continue anyway? (y/N): '' ans # post''
                  \<and> (\<forall>r. ans = Some r \<and> lower r = ''y'' \<longrightarrow>
                        (\<exists>t post3. post'' = Ran ''pytest tests/ -v --tb=short'' t # post3))))))"
proof -
  obtain cs where "actions (snd (main a sh fs lines)) = snd (pipeline a cs lines)"
    using main_refines by blast
  then show ?thesis
    using pipeline_quality[of a cs lines pre rb post]
    by (simp add: run_quality_checks_simps)
qed

theorem quality_checks_run_all_then_prompt_witness:
  "actions (snd (main (run_args Build False False)
      (failing [''black --check ragpack tests examples scripts''])
      (project_tree ''1.2.0'' ''1.2.0'') [''Y''])) =
     [] @ Ran ''black --check ragpack tests examples scripts'' 1 #
     [Ran ''flake8 ragpack tests examples scripts'' 0,
      Ran ''mypy ragpack --ignore-missing-imports'' 0,
      Asked ''Continue anyway? (y/N): '' (Some ''Y''),
      Ran ''pytest tests/ -v --tb=short'' 0,
      Ran ''python -m build'' 0,
      Ran ''twine check dist/*'' 0]
   \<and> lower ''Y'' = ''y''"
proof -
  have l: "lower ''Y'' = ''y''" by (simp add: lower_y)
  have h: "actions (snd (main (run_args Build False False)
      (failing [''black --check ragpack tests examples scripts''])
      (project_tree ''1.2.0'' ''1.2.0'') [''Y''])) =
     [] @ Ran ''black --check ragpack tests examples scripts'' 1 #
     [Ran ''flake8 ragpack tests examples scripts'' 0,
      Ran ''mypy ragpack --ignore-missing-imports'' 0,
      Asked ''Continue anyway? (y/N): '' (Some ''Y''),
      Ran ''pytest tests/ -v --tb=short'' 0,
      Ran ''python -m build'' 0,
      Ran ''twine check dist/*'' 0]"
    unfolding main_def main_from_def by (simp add: run_simps lower_y)
  from quality_checks_run_all_then_prompt[where a = "run_args Build False False"
      and sh = "failing [''black --check ragpack tests examples scripts'']"
      and fs = "project_tree ''1.2.0'' ''1.2.0''" and lines = "[''Y'']" and pre = "[]"
      and rb = 1] h l
  show ?thesis by simp
qed

subsection \<open>Prompts\<close>

lemma pipeline_prompt:
  assumes "snd (pipeline a cs lines) = pre @ Asked p ans # post"
  shows "(p = ''Continue anyway? (y/N): '' \<or> p = ''Are you sure you want to continue? (y/N): '')
       \<and> (case ans of
           None \<Rightarrow> post = [] \<and> fst (pipeline a cs lines) = Raise EOFError
         | Some x \<Rightarrow>
             if lower x = ''y'' then \<exists>c rc post'. post = Ran c rc # post'
             else post = [] \<and> fst (pipeline a cs lines) = SysExit 1)"
  using assms
  by (auto simp add: pipeline_defs Cons_eq_append_conv
      split: outcome.splits if_splits target.splits list.splits)

lemma lower_examples: "lower ''yes'' \<noteq> ''y''" "lower ''Y es'' \<noteq> ''y''" "lower [] \<noteq> ''y''"
  by (simp_all add: lower_def)

text \<open>
  C9. Every question \<open>main\<close> asks is one of its two prompts ("Continue anyway?" after
  failed quality checks or failed tests, "Are you sure you want to continue?" before the
  production upload). After an answer that lowercases to \<open>y\<close>, that is \<open>y\<close> or \<open>Y\<close> and
  nothing else, the run continues with its next command. After any other answer, \<open>yes\<close>,
  \<open>Y es\<close> and the empty line among them, the question is the last action of the run and
  the process ends with exit code 1; so it does when no line is left to read.
\<close>

theorem prompts_continue_only_on_y:
  "(actions (snd (main a sh fs lines)) = pre @ Asked p (Some x) # post \<longrightarrow>
      (p = ''Continue anyway? (y/N): '' \<or> p = ''Are you sure you want to continue? (y/N): '')
      \<and> (if lower x = ''y'' then \<exists>c rc post'. post = Ran c rc # post'
          else post = [] \<and> fst (main a sh fs lines) = SysExit 1
             \<and> exit_code (fst (main a sh fs lines)) = 1))
   \<and> (actions (snd (main a sh fs lines)) = pre @ Asked p None # post \<longrightarrow>
        post = [] \<and> exit_code (fst (main a sh fs lines)) = 1)
   \<and> (lower x = ''y'' \<longleftrightarrow> x = ''y'' \<or> x = ''Y'')
   \<and> lower ''yes'' \<noteq> ''y'' \<and> lower ''Y es'' \<noteq> ''y'' \<and> lower [] \<noteq> ''y''"
proof -
  obtain cs where "fst (main a sh fs lines) = fst (pipeline a cs lines)"
    and "actions (snd (main a sh fs lines)) = snd (pipeline a cs lines)"
    using main_refines by blast
  then show ?thesis
    using pipeline_prompt[of a cs lines pre p "Some x" post]
      pipeline_prompt[of a cs lines pre p None post]
    by (simp add: lower_y lower_examples)
qed

theorem prompts_continue_only_on_y_witness:
  "actions (snd (main (run_args Build False False)
      (failing [''pytest tests/ -v --tb=short''])
      (project_tree ''1.2.0'' ''1.2.0'') [''yes''])) =
     [Ran ''black --check ragpack tests examples scripts'' 0,
      Ran ''flake8 ragpack tests examples scripts'' 0,
      Ran ''mypy ragpack --ignore-missing-imports'' 0,
      Ran ''pytest tests/ -v --tb=short'' 1] @ Asked ''Continue anyway? (y/N): '' (Some ''yes'') # []
   \<and> lower ''yes'' \<noteq> ''y''
   \<and> exit_code (fst (main (run_args Build False False)
      (failing [''pytest tests/ -v --tb=short''])
      (project_tree ''1.2.0'' ''1.2.0'') [''yes''])) = 1"
proof -
  have h: "actions (snd (main (run_args Build False False)
      (failing [''pytest tests/ -v --tb=short''])
      (project_tree ''1.2.0'' ''1.2.0'') [''yes''])) =
     [Ran ''black --check ragpack tests examples scripts'' 0,
      Ran ''flake8 ragpack tests examples scripts'' 0,
      Ran ''mypy ragpack --ignore-missing-imports'' 0,
      Ran ''pytest tests/ -v --tb=short'' 1] @ Asked ''Continue anyway? (y/N): '' (Some ''yes'') # []"
    unfolding main_def main_from_def by (simp add: run_simps lower_examples)
  from prompts_continue_only_on_y[where a = "run_args Build False False"
      and sh = "failing [''pytest tests/ -v --tb=short'']"
      and fs = "project_tree ''1.2.0'' ''1.2.0''" and lines = "[''yes'']"
      and p = "''Continue anyway? (y/N): ''" and x = "''yes''" and post = "[]"
      and pre = "[Ran ''black --check ragpack tests examples scripts'' 0,
      Ran ''flake8 ragpack tests examples scripts'' 0,
      Ran ''mypy ragpack --ignore-missing-imports'' 0,
      Ran ''pytest tests/ -v --tb=short'' 1]"] h
  show ?thesis by simp
qed

subsection \<open>The production upload\<close>

lemma pipeline_production_upload:
  assumes "target a = PyPI"
  shows "snd (pipeline a cs lines) =
           pre @ Asked ''Are you sure you want to continue? (y/N): '' ans # post \<Longrightarrow>
         (case ans of
            None \<Rightarrow> post = [] \<and> fst (pipeline a cs lines) = Raise EOFError
              \<and> Ran ''twine upload dist/*'' r \<notin> set (snd (pipeline a cs lines))
          | Some x \<Rightarrow>
              if lower x = ''y'' then \<exists>rc. post = [Ran ''twine upload dist/*'' rc]
              else post = [] \<and> fst (pipeline a cs lines) = SysExit 1
                \<and> Ran ''twine upload dist/*'' r \<notin> set (snd (pipeline a cs lines)))"
    and "snd (pipeline a cs lines) = pre @ Ran ''twine upload dist/*'' r # post \<Longrightarrow>
         \<exists>pre' x. pre = pre' @ [Asked ''Are you sure you want to continue? (y/N): '' (Some x)]
            \<and> lower x = ''y''"
    and "snd (pipeline a cs lines) = pre @ Ran ''twine check dist/*'' 0 # post \<Longrightarrow>
         \<exists>ans post'. post = Asked ''Are you sure you want to continue? (y/N): '' ans # post'"
    and "Ran ''twine upload --repository testpypi dist/*'' r \<notin> set (snd (pipeline a cs lines))"
  using assms
  by (auto simp add: pipeline_defs Cons_eq_append_conv
      split: outcome.splits if_splits target.splits list.splits)

text \<open>
  C3. In a run with target \<open>pypi\<close>: once the package check has passed, the next action is
  the confirmation question. The production upload command is run only directly after an
  answer to it that lowercases to \<open>y\<close> (\<open>y\<close> itself is one), and after such an answer it
  is run. After any other answer, or none, the process ends with exit code 1 and the
  production upload command is not run in the whole run.
\<close>

theorem production_upload_requires_confirmation:
  assumes "target a = PyPI"
  shows "(actions (snd (main a sh fs lines)) =
            pre @ Asked ''Are you sure you want to continue? (y/N): '' (Some x) # post
          \<and> lower x \<noteq> ''y'' \<longrightarrow>
            exit_code (fst (main a sh fs lines)) = 1 \<and> post = []
            \<and> Ran ''twine upload dist/*'' r \<notin> set (trace (snd (main a sh fs lines))))
       \<and> (actions (snd (main a sh fs lines)) =
            pre @ Asked ''Are you sure you want to continue? (y/N): '' None # post \<longrightarrow>
            exit_code (fst (main a sh fs lines)) = 1 \<and> post = []
            \<and> Ran ''twine upload dist/*'' r \<notin> set (trace (snd (main a sh fs lines))))
       \<and> (actions (snd (main a sh fs lines)) =
            pre @ Asked ''Are you sure you want to continue? (y/N): '' (Some x) # post
          \<and> lower x = ''y'' \<longrightarrow>
            (\<exists>rc. post = [Ran ''twine upload dist/*'' rc]))
       \<and> (actions (snd (main a sh fs lines)) = pre @ Ran ''twine upload dist/*'' r # post \<longrightarrow>
            (\<exists>pre' y. pre = pre' @ [Asked ''Are you sure you want to continue? (y/N): '' (Some y)]
               \<and> lower y = ''y''))
       \<and> (actions (snd (main a sh fs lines)) = pre @ Ran ''twine check dist/*'' 0 # post \<longrightarrow>
            (\<exists>ans post'. post = Asked ''Are you sure you want to continue? (y/N): '' ans # post'))
       \<and> lower ''y'' = ''y''"
proof -
  obtain cs where o: "fst (main a sh fs lines) = fst (pipeline a cs lines)"
    and t: "actions (snd (main a sh fs lines)) = snd (pipeline a cs lines)"
    using main_refines by blast
  have u: "Ran ''twine upload dist/*'' r \<notin> set (trace (snd (main a sh fs lines))) \<longleftrightarrow>
           Ran ''twine upload dist/*'' r \<notin> set (snd (pipeline a cs lines))"
    using in_actions[of "Ran ''twine upload dist/*'' r" "snd (main a sh fs lines)"] t by simp
  show ?thesis
    unfolding o t u
    using pipeline_production_upload(1)[OF assms, of cs lines pre "Some x" post r]
      pipeline_production_upload(1)[OF assms, of cs lines pre None post r]
      pipeline_production_upload(2)[OF assms, of cs lines pre r post]
      pipeline_production_upload(3)[OF assms, of cs lines pre post]
    by (auto simp add: lower_y)
qed

theorem production_upload_requires_confirmation_witness:
  "target (run_args PyPI True False) = PyPI
   \<and> actions (snd (main (run_args PyPI True False) (failing [])
        (project_tree ''1.2.0'' ''1.2.0'') [''n''])) =
       [Ran ''python -m build'' 0, Ran ''twine check dist/*'' 0]
       @ Asked ''Are you sure you want to continue? (y/N): '' (Some ''n'') # []
   \<and> lower ''n'' \<noteq> ''y''
   \<and> exit_code (fst (main (run_args PyPI True False) (failing [])
        (project_tree ''1.2.0'' ''1.2.0'') [''n''])) = 1
   \<and> Ran ''twine upload dist/*'' 0 \<notin> set (trace (snd (main (run_args PyPI True False) (failing [])
        (project_tree ''1.2.0'' ''1.2.0'') [''n''])))
   \<and> actions (snd (main (run_args PyPI True False) (failing [])
        (project_tree ''1.2.0'' ''1.2.0'') [''y''])) =
       [Ran ''python -m build'' 0, Ran ''twine check dist/*'' 0]
       @ Asked ''Are you sure you want to continue? (y/N): '' (Some ''y'') #
       [Ran ''twine upload dist/*'' 0]"
proof -
  have t: "target (run_args PyPI True False) = PyPI"
    by (simp add: run_args_def)
  have l: "lower ''n'' \<noteq> ''y''" "lower ''y'' = ''y''"
    by (simp_all add: lower_y)
  have n: "actions (snd (main (run_args PyPI True False) (failing [])
        (project_tree ''1.2.0'' ''1.2.0'') [''n''])) =
       [Ran ''python -m build'' 0, Ran ''twine check dist/*'' 0]
       @ Asked ''Are you sure you want to continue? (y/N): '' (Some ''n'') # []"
    unfolding main_def main_from_def by (simp add: run_simps l)
  have y: "actions (snd (main (run_args PyPI True False) (failing [])
        (project_tree ''1.2.0'' ''1.2.0'') [''y''])) =
       [Ran ''python -m build'' 0, Ran ''twine check dist/*'' 0]
       @ Asked ''Are you sure you want to continue? (y/N): '' (Some ''y'') #
       [Ran ''twine upload dist/*'' 0]"
    unfolding main_def main_from_def by (simp add: run_simps l)
  from production_upload_requires_confirmation[OF t, where sh = "failing []"
      and fs = "project_tree ''1.2.0'' ''1.2.0''" and lines = "[''n'']"
      and pre = "[Ran ''python -m build'' 0, Ran ''twine check dist/*'' 0]"
      and x = "''n''" and post = "[]" and r = 0] t l n y
  show ?thesis by simp
qed

end
